theory Spec2Isabelle
  imports Main
begin

section \<open>Data model of \<^verbatim>\<open>src/main.py\<close>\<close>

text \<open>
  A Python \<^verbatim>\<open>str\<close> is a sequence of Unicode code points, and the source slices and
  compares strings by code point (\<^verbatim>\<open>message.text[2:]\<close>), so a string is a list of code
  points here. The glyphs of the button texts are single code points above ASCII.
\<close>

type_synonym pystr = "nat list"

abbreviation ascii :: "string \<Rightarrow> pystr" where
  "ascii s \<equiv> map of_char s"

definition FOLDER :: pystr where
  "FOLDER = [128193, 32]"

definition CANCEL :: pystr where
  "CANCEL = 10060 # ascii '' Cancel''"

definition NEW_CATEGORY :: pystr where
  "NEW_CATEGORY = 10133 # ascii '' New Category''"

definition ADD_TO :: pystr where
  "ADD_TO = 10133 # ascii '' Add to ''"

text \<open>\<^verbatim>\<open>f"{x}"\<close> of an optional string: \<^verbatim>\<open>None\<close> is formatted as the text \<^verbatim>\<open>None\<close>.\<close>

fun fmt :: "pystr option \<Rightarrow> pystr" where
  "fmt None = ascii ''None''"
| "fmt (Some s) = s"

text \<open>\<^verbatim>\<open>a or b\<close> on an optional string and a string: \<^verbatim>\<open>None\<close> and \<^verbatim>\<open>""\<close> are falsy.\<close>

fun py_or :: "pystr option \<Rightarrow> pystr \<Rightarrow> pystr" where
  "py_or None d = d"
| "py_or (Some s) d = (if s = [] then d else s)"

fun startswith :: "pystr \<Rightarrow> pystr \<Rightarrow> bool" where
  "startswith s p = (take (length p) s = p)"

datatype Action = DELETE_TASK | DELETE_CAT | RENAME_CAT | SETTINGS

datatype callback_data = TaskCB Action int | CategoryCB Action int

datatype BotState = waiting_content | waiting_new_category_name | waiting_rename_category

text \<open>
  The FSM context of one chat: the state (\<open>None\<close> is the idle state) and the data
  dictionary, of which the handlers use the two keys below (\<^verbatim>\<open>data.get\<close> gives
  \<^verbatim>\<open>None\<close> for a missing key).
\<close>

record FSMContext =
  state :: "BotState option"
  current_cat_id :: "int option"
  rename_cat_id :: "int option"

definition clear :: FSMContext where
  "clear = \<lparr>state = None, current_cat_id = None, rename_cat_id = None\<rparr>"

text \<open>
  The two tables of \<^verbatim>\<open>main\<close>:
  \<^verbatim>\<open>categories (id INTEGER PRIMARY KEY, name TEXT UNIQUE)\<close> and
  \<^verbatim>\<open>tasks (id INTEGER PRIMARY KEY, cat_id INTEGER, chat_id INTEGER, msg_id INTEGER, preview_text TEXT)\<close>.
  A table is the list of its rows in rowid order; a nullable column is an option. No
  statement of the source has an ORDER BY: a SELECT returns the matching rows in table
  order.
\<close>

record category_row =
  c_id :: int
  c_name :: "pystr option"

record task_row =
  t_id :: int
  t_cat_id :: "int option"
  t_chat_id :: int
  t_msg_id :: int
  t_preview_text :: pystr

record database =
  categories :: "category_row list"
  tasks :: "task_row list"

datatype error = TelegramAPIError | IntegrityError | TypeError

section \<open>The SQL statements\<close>

text \<open>The rowid of an inserted row: one more than the largest rowid, 1 in an empty table.\<close>

fun next_rowid :: "int list \<Rightarrow> int" where
  "next_rowid [] = 1"
| "next_rowid (x # xs) = fold max xs x + 1"

text \<open>\<^verbatim>\<open>INSERT OR IGNORE INTO categories (name) VALUES (?)\<close>: a row whose name would
  break the UNIQUE constraint is ignored; NULL never conflicts.\<close>

definition insert_or_ignore_category :: "pystr option \<Rightarrow> database \<Rightarrow> database" where
  "insert_or_ignore_category name d =
     (if name \<noteq> None \<and> name \<in> set (map c_name (categories d)) then d
      else d\<lparr>categories := categories d @
             [\<lparr>c_id = next_rowid (map c_id (categories d)), c_name = name\<rparr>]\<rparr>)"

text \<open>\<^verbatim>\<open>SELECT name FROM categories\<close>\<close>

definition select_names :: "database \<Rightarrow> pystr option list" where
  "select_names d = map c_name (categories d)"

text \<open>\<^verbatim>\<open>SELECT id FROM categories WHERE name = ?\<close> with \<^verbatim>\<open>fetchone\<close>\<close>

definition select_id_by_name :: "pystr \<Rightarrow> database \<Rightarrow> int option" where
  "select_id_by_name n d =
     (case filter (\<lambda>c. c_name c = Some n) (categories d) of
        [] \<Rightarrow> None
      | c # _ \<Rightarrow> Some (c_id c))"

text \<open>\<^verbatim>\<open>SELECT id, chat_id, msg_id FROM tasks WHERE cat_id = ?\<close>\<close>

definition select_tasks :: "int \<Rightarrow> database \<Rightarrow> (int \<times> int \<times> int) list" where
  "select_tasks cid d =
     map (\<lambda>t. (t_id t, t_chat_id t, t_msg_id t))
       (filter (\<lambda>t. t_cat_id t = Some cid) (tasks d))"

text \<open>\<^verbatim>\<open>UPDATE categories SET name = ? WHERE id = ?\<close>: the statement fails, changing
  nothing, when the row exists and another row holds the new (non-NULL) name.\<close>

definition update_name :: "pystr option \<Rightarrow> int option \<Rightarrow> database \<Rightarrow> error + database" where
  "update_name name cid d =
     (if name \<noteq> None \<and> filter (\<lambda>c. Some (c_id c) = cid) (categories d) \<noteq> []
         \<and> filter (\<lambda>c. Some (c_id c) \<noteq> cid \<and> c_name c = name) (categories d) \<noteq> []
      then Inl IntegrityError
      else Inr (d\<lparr>categories :=
             map (\<lambda>c. if Some (c_id c) = cid then c\<lparr>c_name := name\<rparr> else c) (categories d)\<rparr>))"

text \<open>\<^verbatim>\<open>INSERT INTO tasks (cat_id, chat_id, msg_id, preview_text) VALUES (?, ?, ?, ?)\<close>\<close>

definition insert_task :: "int option \<Rightarrow> int \<Rightarrow> int \<Rightarrow> pystr \<Rightarrow> database \<Rightarrow> database" where
  "insert_task cid chat mid preview d =
     d\<lparr>tasks := tasks d @
        [\<lparr>t_id = next_rowid (map t_id (tasks d)), t_cat_id = cid, t_chat_id = chat,
          t_msg_id = mid, t_preview_text = preview\<rparr>]\<rparr>"

text \<open>\<^verbatim>\<open>DELETE FROM tasks WHERE id = ?\<close>\<close>

definition delete_task_row :: "int \<Rightarrow> database \<Rightarrow> database" where
  "delete_task_row tid d = d\<lparr>tasks := filter (\<lambda>t. t_id t \<noteq> tid) (tasks d)\<rparr>"

text \<open>\<^verbatim>\<open>DELETE FROM tasks WHERE cat_id = ?\<close>\<close>

definition delete_tasks_of :: "int \<Rightarrow> database \<Rightarrow> database" where
  "delete_tasks_of cid d = d\<lparr>tasks := filter (\<lambda>t. t_cat_id t \<noteq> Some cid) (tasks d)\<rparr>"

text \<open>\<^verbatim>\<open>DELETE FROM categories WHERE id = ?\<close>\<close>

definition delete_category_row :: "int \<Rightarrow> database \<Rightarrow> database" where
  "delete_category_row cid d = d\<lparr>categories := filter (\<lambda>c. c_id c \<noteq> cid) (categories d)\<rparr>"

section \<open>Keyboards\<close>

datatype markup =
  ReplyKeyboard "pystr list list"
| InlineKeyboard "(pystr \<times> callback_data) list list"

text \<open>\<^verbatim>\<open>builder.adjust(2)\<close>: rows of two buttons, the last row may hold one.\<close>

fun adjust2 :: "'a list \<Rightarrow> 'a list list" where
  "adjust2 [] = []"
| "adjust2 [x] = [[x]]"
| "adjust2 (x # y # zs) = [x, y] # adjust2 zs"

definition main_menu :: "database \<Rightarrow> markup" where
  "main_menu d =
     ReplyKeyboard (adjust2 (map (\<lambda>name. FOLDER @ fmt name) (select_names d) @ [NEW_CATEGORY]))"

definition cancel_kb :: markup where
  "cancel_kb = ReplyKeyboard [[CANCEL]]"

definition task_inline :: "int \<Rightarrow> markup" where
  "task_inline task_id =
     InlineKeyboard [[(128465 # ascii '' Delete'', TaskCB DELETE_TASK task_id)]]"

definition category_settings_btn :: "int \<Rightarrow> markup" where
  "category_settings_btn cat_id =
     InlineKeyboard [[(9881 # 65039 # ascii '' Category Settings'', CategoryCB SETTINGS cat_id)]]"

definition category_mgmt_menu :: "int \<Rightarrow> markup" where
  "category_mgmt_menu cat_id =
     InlineKeyboard
       [[(9999 # 65039 # ascii '' Rename'', CategoryCB RENAME_CAT cat_id)],
        [(128293 # ascii '' Delete'', CategoryCB DELETE_CAT cat_id)],
        [(11013 # 65039 # ascii '' Back'', CategoryCB SETTINGS cat_id)]]"

section \<open>Events, platform calls and the world a handler runs in\<close>

record Message =
  m_text :: "pystr option"
  m_caption :: "pystr option"
  m_chat_id :: int
  m_message_id :: int

record CallbackQuery =
  q_data :: callback_data
  q_chat_id :: int
  q_message_id :: int

datatype event = MessageEvent Message | CallbackEvent CallbackQuery

datatype api_call =
  SendMessage int pystr markup
| CopyMessage int int int markup
| EditMessageText int int pystr markup
| DeleteMessage int int
| AnswerCallbackQuery "pystr option" bool

text \<open>
  The world: the chat's FSM context, the database, and the platform calls attempted so
  far, in order. Whether a platform call succeeds is the transport's: \<open>ok i\<close> says
  whether the \<open>i\<close>-th attempted call succeeds. A handler returns the exception it ended
  with, if any, and the world it left behind.
\<close>

record world =
  fsm :: FSMContext
  db :: database
  outbox :: "api_call list"

type_synonym transport = "nat \<Rightarrow> bool"

type_synonym outcome = "error option \<times> world"

definition call_api :: "transport \<Rightarrow> api_call \<Rightarrow> world \<Rightarrow> outcome" where
  "call_api ok c w =
     (if ok (length (outbox w)) then None else Some TelegramAPIError,
      w\<lparr>outbox := outbox w @ [c]\<rparr>)"

text \<open>Sequencing: an exception ends the handler where it is raised.\<close>

definition and_then :: "outcome \<Rightarrow> (world \<Rightarrow> outcome) \<Rightarrow> outcome" where
  "and_then r f = (case r of (None, w) \<Rightarrow> f w | (Some e, w) \<Rightarrow> (Some e, w))"

definition set_state :: "BotState \<Rightarrow> world \<Rightarrow> world" where
  "set_state s w = w\<lparr>fsm := (fsm w)\<lparr>state := Some s\<rparr>\<rparr>"

definition state_clear :: "world \<Rightarrow> world" where
  "state_clear w = w\<lparr>fsm := clear\<rparr>"

section \<open>The handlers\<close>

definition cmd_start :: "transport \<Rightarrow> Message \<Rightarrow> world \<Rightarrow> outcome" where
  "cmd_start ok m w =
     (let w1 = state_clear w
      in call_api ok (SendMessage (m_chat_id m) (ascii ''Main Menu:'') (main_menu (db w1))) w1)"

definition add_cat_init :: "transport \<Rightarrow> Message \<Rightarrow> world \<Rightarrow> outcome" where
  "add_cat_init ok m w =
     and_then (call_api ok (SendMessage (m_chat_id m) (ascii ''Enter category name:'') cancel_kb) w)
       (\<lambda>w1. (None, set_state waiting_new_category_name w1))"

definition save_category :: "transport \<Rightarrow> Message \<Rightarrow> world \<Rightarrow> outcome" where
  "save_category ok m w =
     (let w1 = w\<lparr>db := insert_or_ignore_category (m_text m) (db w)\<rparr>;
          w2 = state_clear w1
      in call_api ok
           (SendMessage (m_chat_id m)
              (ascii ''Category '' @ [39] @ fmt (m_text m) @ [39] @ ascii '' created.'')
              (main_menu (db w2))) w2)"

text \<open>The replay loop of \<^verbatim>\<open>show_category\<close>: one copy call per row; a failing call is
  logged and the loop continues; \<open>count\<close> counts the calls that succeeded.\<close>

fun copy_tasks :: "transport \<Rightarrow> int \<Rightarrow> (int \<times> int \<times> int) list \<Rightarrow> nat \<times> world \<Rightarrow> nat \<times> world" where
  "copy_tasks ok chat [] (count, w) = (count, w)"
| "copy_tasks ok chat ((tid, chat_id, msg_id) # rows) (count, w) =
     (case call_api ok (CopyMessage chat chat_id msg_id (task_inline tid)) w of
        (None, w1) \<Rightarrow> copy_tasks ok chat rows (count + 1, w1)
      | (Some e, w1) \<Rightarrow> copy_tasks ok chat rows (count, w1))"

definition show_category :: "transport \<Rightarrow> Message \<Rightarrow> world \<Rightarrow> outcome" where
  "show_category ok m w =
     (case m_text m of
        None \<Rightarrow> (Some TypeError, w)
      | Some t \<Rightarrow>
          (let cat_name = drop 2 t in
           case select_id_by_name cat_name (db w) of
             None \<Rightarrow> (None, w)
           | Some cat_id \<Rightarrow>
               (let w1 = w\<lparr>fsm := (fsm w)\<lparr>current_cat_id := Some cat_id\<rparr>\<rparr>;
                    w2 = snd (copy_tasks ok (m_chat_id m) (select_tasks cat_id (db w1)) (0, w1))
                in and_then
                     (call_api ok
                        (SendMessage (m_chat_id m) (ascii ''Content of '' @ cat_name @ ascii '':'')
                           (ReplyKeyboard [[ADD_TO @ cat_name, CANCEL]])) w2)
                     (call_api ok
                        (SendMessage (m_chat_id m) (ascii ''Settings:'')
                           (category_settings_btn cat_id))))))"

fun cb_id :: "callback_data \<Rightarrow> int" where
  "cb_id (TaskCB a i) = i"
| "cb_id (CategoryCB a i) = i"

definition category_settings :: "transport \<Rightarrow> CallbackQuery \<Rightarrow> world \<Rightarrow> outcome" where
  "category_settings ok q w =
     and_then
       (call_api ok
          (EditMessageText (q_chat_id q) (q_message_id q) (ascii ''Control Panel:'')
             (category_mgmt_menu (cb_id (q_data q)))) w)
       (call_api ok (AnswerCallbackQuery None False))"

definition rename_cat_init :: "transport \<Rightarrow> CallbackQuery \<Rightarrow> world \<Rightarrow> outcome" where
  "rename_cat_init ok q w =
     (let w1 = w\<lparr>fsm := (fsm w)\<lparr>rename_cat_id := Some (cb_id (q_data q))\<rparr>\<rparr>
      in and_then
           (call_api ok
              (SendMessage (q_chat_id q) (ascii ''Enter new name for this category:'') cancel_kb) w1)
           (\<lambda>w2. call_api ok (AnswerCallbackQuery None False)
                    (set_state waiting_rename_category w2)))"

definition save_renamed_category :: "transport \<Rightarrow> Message \<Rightarrow> world \<Rightarrow> outcome" where
  "save_renamed_category ok m w =
     (let cat_id = rename_cat_id (fsm w) in
      case update_name (m_text m) cat_id (db w) of
        Inl e \<Rightarrow> (Some e, w)
      | Inr d \<Rightarrow>
          (let w1 = state_clear (w\<lparr>db := d\<rparr>)
           in call_api ok
                (SendMessage (m_chat_id m)
                   (ascii ''Category renamed to '' @ [39] @ fmt (m_text m) @ [39])
                   (main_menu (db w1))) w1))"

definition add_task_init :: "transport \<Rightarrow> Message \<Rightarrow> world \<Rightarrow> outcome" where
  "add_task_init ok m w =
     and_then (call_api ok (SendMessage (m_chat_id m) (ascii ''Send content:'') cancel_kb) w)
       (\<lambda>w1. (None, set_state waiting_content w1))"

definition save_task :: "transport \<Rightarrow> Message \<Rightarrow> world \<Rightarrow> outcome" where
  "save_task ok m w =
     (let cat_id = current_cat_id (fsm w);
          preview = take 20 (py_or (m_text m) (py_or (m_caption m) (ascii ''Media'')));
          w1 = state_clear
                 (w\<lparr>db := insert_task cat_id (m_chat_id m) (m_message_id m) preview (db w)\<rparr>)
      in call_api ok
           (SendMessage (m_chat_id m) (9989 # ascii '' Saved!'') (main_menu (db w1))) w1)"

definition delete_task :: "transport \<Rightarrow> CallbackQuery \<Rightarrow> world \<Rightarrow> outcome" where
  "delete_task ok q w =
     (let w1 = w\<lparr>db := delete_task_row (cb_id (q_data q)) (db w)\<rparr>
      in and_then (call_api ok (DeleteMessage (q_chat_id q) (q_message_id q)) w1)
           (call_api ok (AnswerCallbackQuery (Some (ascii ''Deleted'')) False)))"

definition delete_category :: "transport \<Rightarrow> CallbackQuery \<Rightarrow> world \<Rightarrow> outcome" where
  "delete_category ok q w =
     (let w1 = w\<lparr>db := delete_category_row (cb_id (q_data q))
                          (delete_tasks_of (cb_id (q_data q)) (db w))\<rparr>
      in and_then (call_api ok (AnswerCallbackQuery (Some (ascii ''Category deleted'')) True) w1)
           (\<lambda>w2. and_then
                    (call_api ok
                       (SendMessage (q_chat_id q) (ascii ''Returning to Main Menu...'')
                          (main_menu (db w2))) w2)
                    (call_api ok (DeleteMessage (q_chat_id q) (q_message_id q)))))"

section \<open>The dispatcher\<close>

text \<open>
  Modelled from the spec: the \<^verbatim>\<open>Command("start")\<close> filter is the framework's, not the
  repository's; the spec gives the command grammar as \<^verbatim>\<open>/start\<close>. The filter reads the
  text (or the caption) up to the first space.
\<close>

definition command_start :: "Message \<Rightarrow> bool" where
  "command_start m =
     (takeWhile (\<lambda>c. c \<noteq> 32) (py_or (m_text m) (py_or (m_caption m) [])) = ascii ''/start'')"

definition text_is :: "Message \<Rightarrow> pystr \<Rightarrow> bool" where
  "text_is m s = (m_text m = Some s)"

definition text_startswith :: "Message \<Rightarrow> pystr \<Rightarrow> bool" where
  "text_startswith m p = (case m_text m of None \<Rightarrow> False | Some t \<Rightarrow> startswith t p)"

text \<open>The handlers are tried in the order the source registers them; the first whose
  filter accepts the event runs; an event no filter accepts is ignored.\<close>

definition on_message :: "transport \<Rightarrow> Message \<Rightarrow> world \<Rightarrow> outcome" where
  "on_message ok m w =
     (if command_start m \<or> text_is m CANCEL then cmd_start ok m w
      else if text_is m NEW_CATEGORY then add_cat_init ok m w
      else if state (fsm w) = Some waiting_new_category_name then save_category ok m w
      else if text_startswith m FOLDER then show_category ok m w
      else if state (fsm w) = Some waiting_rename_category then save_renamed_category ok m w
      else if text_startswith m ADD_TO then add_task_init ok m w
      else if state (fsm w) = Some waiting_content then save_task ok m w
      else (None, w))"

fun on_callback :: "transport \<Rightarrow> CallbackQuery \<Rightarrow> world \<Rightarrow> outcome" where
  "on_callback ok q w =
     (case q_data q of
        CategoryCB SETTINGS i \<Rightarrow> category_settings ok q w
      | CategoryCB RENAME_CAT i \<Rightarrow> rename_cat_init ok q w
      | TaskCB DELETE_TASK i \<Rightarrow> delete_task ok q w
      | CategoryCB DELETE_CAT i \<Rightarrow> delete_category ok q w
      | _ \<Rightarrow> (None, w))"

fun handle :: "transport \<Rightarrow> event \<Rightarrow> world \<Rightarrow> outcome" where
  "handle ok (MessageEvent m) w = on_message ok m w"
| "handle ok (CallbackEvent q) w = on_callback ok q w"

text \<open>A run: the events of the chat, one after the other; an exception of a handler is
  logged by the framework and the next event is handled in the world it left.\<close>

fun run :: "transport \<Rightarrow> event list \<Rightarrow> world \<Rightarrow> world" where
  "run ok [] w = w"
| "run ok (e # es) w = run ok es (snd (handle ok e w))"

text \<open>The world after \<^verbatim>\<open>main\<close> has created the two tables in a fresh database.\<close>

definition initial :: world where
  "initial = \<lparr>fsm = clear, db = \<lparr>categories = [], tasks = []\<rparr>, outbox = []\<rparr>"

section \<open>Invariants and observations\<close>

text \<open>
  What the schema of \<^verbatim>\<open>main\<close> maintains: rowids are the primary key and each table is
  kept in rowid order; the non-NULL names of the categories are pairwise different.
\<close>

definition schema_ok :: "database \<Rightarrow> bool" where
  "schema_ok d =
     (sorted_wrt (<) (map c_id (categories d)) \<and>
      sorted_wrt (<) (map t_id (tasks d)) \<and>
      distinct (filter (\<lambda>n. n \<noteq> None) (map c_name (categories d))))"

text \<open>The rows of \<^verbatim>\<open>categories\<close> after the UPDATE of \<open>update_name\<close> has been accepted.\<close>

definition renamed :: "pystr option \<Rightarrow> int option \<Rightarrow> category_row list \<Rightarrow> category_row list" where
  "renamed name cid cs = map (\<lambda>c. if Some (c_id c) = cid then c\<lparr>c_name := name\<rparr> else c) cs"

text \<open>The task a copy call replays: the id its delete button carries.\<close>

fun copied_task_id :: "api_call \<Rightarrow> int option" where
  "copied_task_id (CopyMessage c f m (InlineKeyboard [[(l, TaskCB a tid)]])) = Some tid"
| "copied_task_id _ = None"

text \<open>The replay calls among the platform calls.\<close>

fun is_copy :: "api_call \<Rightarrow> bool" where
  "is_copy (CopyMessage c f m k) = True"
| "is_copy _ = False"

text \<open>The platform calls a handler attempted: those of the outbox after it that were not
  there before.\<close>

definition new_calls :: "world \<Rightarrow> world \<Rightarrow> api_call list" where
  "new_calls w w' = drop (length (outbox w)) (outbox w')"

text \<open>The button texts of a reply keyboard, row by row.\<close>

fun menu_buttons :: "markup \<Rightarrow> pystr list" where
  "menu_buttons (ReplyKeyboard rows) = concat rows"
| "menu_buttons (InlineKeyboard rows) = map fst (concat rows)"

text \<open>Every task references a category that exists.\<close>

definition fk_ok :: "database \<Rightarrow> bool" where
  "fk_ok d =
     list_all (\<lambda>t. case t_cat_id t of None \<Rightarrow> False | Some i \<Rightarrow> i \<in> set (map c_id (categories d)))
       (tasks d)"

section \<open>Sample inputs\<close>

definition text_message :: "pystr \<Rightarrow> Message" where
  "text_message t = \<lparr>m_text = Some t, m_caption = None, m_chat_id = 7, m_message_id = 100\<rparr>"

definition photo_message :: Message where
  "photo_message = \<lparr>m_text = None, m_caption = None, m_chat_id = 7, m_message_id = 101\<rparr>"

definition category_callback :: "Action \<Rightarrow> int \<Rightarrow> CallbackQuery" where
  "category_callback a i = \<lparr>q_data = CategoryCB a i, q_chat_id = 7, q_message_id = 50\<rparr>"

definition sample_db :: database where
  "sample_db =
     \<lparr>categories = [\<lparr>c_id = 1, c_name = Some (ascii ''Work'')\<rparr>,
                    \<lparr>c_id = 2, c_name = Some (ascii ''Home'')\<rparr>],
      tasks = [\<lparr>t_id = 1, t_cat_id = Some 1, t_chat_id = 7, t_msg_id = 40,
                 t_preview_text = ascii ''report''\<rparr>,
               \<lparr>t_id = 2, t_cat_id = Some 2, t_chat_id = 7, t_msg_id = 41,
                 t_preview_text = ascii ''milk''\<rparr>,
               \<lparr>t_id = 3, t_cat_id = Some 1, t_chat_id = 7, t_msg_id = 42,
                 t_preview_text = ascii ''Media''\<rparr>]\<rparr>"

definition sample_world :: "FSMContext \<Rightarrow> world" where
  "sample_world c = \<lparr>fsm = c, db = sample_db, outbox = []\<rparr>"

definition renaming :: FSMContext where
  "renaming = \<lparr>state = Some waiting_rename_category, current_cat_id = None, rename_cat_id = Some 1\<rparr>"

text \<open>A transport on which every call succeeds, and one on which every call fails.\<close>

definition all_ok :: transport where
  "all_ok k = True"

definition all_fail :: transport where
  "all_fail k = False"

section \<open>The rowids and the schema\<close>

lemma fold_max_ge: "(a::int) \<le> fold max xs a"
  by (induction xs arbitrary: a) (auto intro: order_trans [OF max.cobounded2])

lemma fold_max_mem: "x \<in> set xs \<Longrightarrow> (x::int) \<le> fold max xs a"
  by (induction xs arbitrary: a) (auto intro: order_trans [OF max.cobounded1 fold_max_ge])

lemma next_rowid_fresh: "x \<in> set xs \<Longrightarrow> x < next_rowid xs"
proof (cases xs)
  case Nil
  assume "x \<in> set xs"
  with Nil show ?thesis by simp
next
  case (Cons y ys)
  assume "x \<in> set xs"
  with Cons have "x = y \<or> x \<in> set ys" by auto
  then have "x \<le> fold max ys y"
    using fold_max_ge [of y ys] fold_max_mem [of x ys y] by auto
  with Cons show ?thesis by simp
qed

lemma sorted_snoc_rowid: "sorted_wrt (<) xs \<Longrightarrow> sorted_wrt (<) (xs @ [next_rowid xs])"
  by (simp add: sorted_wrt_append next_rowid_fresh)

lemma distinct_names_filter:
  "distinct (filter P (map f xs)) \<Longrightarrow> distinct (filter P (map f (filter Q xs)))"
  by (induction xs) auto

lemma sorted_ids_filter:
  "sorted_wrt (<) (map f xs) \<Longrightarrow> sorted_wrt (<) (map (f :: 'a \<Rightarrow> int) (filter Q xs))"
  by (induction xs) auto

lemma schema_ok_insert_category: "schema_ok d \<Longrightarrow> schema_ok (insert_or_ignore_category name d)"
  by (auto simp: schema_ok_def insert_or_ignore_category_def sorted_snoc_rowid)

lemma schema_ok_insert_task: "schema_ok d \<Longrightarrow> schema_ok (insert_task cid chat mid p d)"
  by (simp add: schema_ok_def insert_task_def sorted_snoc_rowid)

lemma schema_ok_delete_task_row: "schema_ok d \<Longrightarrow> schema_ok (delete_task_row tid d)"
  by (simp add: schema_ok_def delete_task_row_def sorted_ids_filter)

lemma schema_ok_delete_tasks_of: "schema_ok d \<Longrightarrow> schema_ok (delete_tasks_of cid d)"
  by (simp add: schema_ok_def delete_tasks_of_def sorted_ids_filter)

lemma schema_ok_delete_category_row: "schema_ok d \<Longrightarrow> schema_ok (delete_category_row cid d)"
  by (simp add: schema_ok_def delete_category_row_def sorted_ids_filter distinct_names_filter)

lemma renamed_ids: "map c_id (renamed name cid cs) = map c_id cs"
  by (induction cs) (auto simp: renamed_def)

lemma renamed_absent: "cid \<notin> Some ` c_id ` set cs \<Longrightarrow> renamed name cid cs = cs"
  by (induction cs) (auto simp: renamed_def)

lemma renamed_names_subset:
  "set (map c_name (renamed name cid cs)) \<subseteq> insert name (set (map c_name cs))"
  by (induction cs) (auto simp: renamed_def)

lemma renamed_others:
  "filter (\<lambda>c. Some (c_id c) \<noteq> cid) (renamed name cid cs) = filter (\<lambda>c. Some (c_id c) \<noteq> cid) cs"
  by (induction cs) (auto simp: renamed_def)

lemma renamed_distinct:
  assumes "distinct (filter (\<lambda>n. n \<noteq> None) (map c_name cs))"
    and "distinct (map c_id cs)"
    and "filter (\<lambda>c. Some (c_id c) \<noteq> cid \<and> c_name c = name) cs = [] \<or> name = None"
  shows "distinct (filter (\<lambda>n. n \<noteq> None) (map c_name (renamed name cid cs)))"
  using assms
proof (induction cs)
  case Nil
  then show ?case by (simp add: renamed_def)
next
  case (Cons c cs)
  have rest: "distinct (filter (\<lambda>n. n \<noteq> None) (map c_name (renamed name cid cs)))"
    using Cons by (auto split: if_splits)
  show ?case
  proof (cases "Some (c_id c) = cid")
    case True
    with Cons.prems(2) have notin: "cid \<notin> Some ` c_id ` set cs" by auto
    then have same: "renamed name cid cs = cs" by (rule renamed_absent)
    have "name \<noteq> None \<Longrightarrow> name \<notin> set (map c_name cs)"
    proof
      assume nn: "name \<noteq> None" and "name \<in> set (map c_name cs)"
      then obtain c' where c': "c' \<in> set cs" "c_name c' = name" by auto
      with notin have "Some (c_id c') \<noteq> cid" by blast
      with c' have "c' \<in> set (filter (\<lambda>c. Some (c_id c) \<noteq> cid \<and> c_name c = name) (c # cs))"
        by simp
      with Cons.prems(3) nn show False by auto
    qed
    with True same rest show ?thesis
      using Cons.prems(1) by (auto simp: renamed_def split: if_splits)
  next
    case False
    have ne: "name \<noteq> None \<Longrightarrow> c_name c \<noteq> name"
      using False Cons.prems(3) by (auto split: if_splits)
    have "c_name c \<noteq> None \<Longrightarrow> c_name c \<notin> set (map c_name (renamed name cid cs))"
    proof
      assume cn: "c_name c \<noteq> None" and "c_name c \<in> set (map c_name (renamed name cid cs))"
      with renamed_names_subset [of name cid cs]
      have "c_name c = name \<or> c_name c \<in> set (map c_name cs)" by auto
      moreover have "c_name c \<notin> set (map c_name cs)"
        using Cons.prems(1) cn by auto
      ultimately show False using ne cn by auto
    qed
    with False rest show ?thesis
      by (auto simp: renamed_def)
  qed
qed

lemma update_name_Inr:
  "update_name name cid d = Inr d' \<Longrightarrow> d' = d\<lparr>categories := renamed name cid (categories d)\<rparr>"
  by (auto simp: update_name_def renamed_def split: if_splits)

lemma schema_ok_update_name:
  assumes "schema_ok d" and "update_name name cid d = Inr d'"
  shows "schema_ok d'"
proof -
  have ids: "distinct (map c_id (categories d))"
    using assms(1) by (simp add: schema_ok_def strict_sorted_iff)
  have d': "d' = d\<lparr>categories := renamed name cid (categories d)\<rparr>"
    using assms(2) by (rule update_name_Inr)
  have free: "name = None \<or> filter (\<lambda>c. Some (c_id c) = cid) (categories d) = []
       \<or> filter (\<lambda>c. Some (c_id c) \<noteq> cid \<and> c_name c = name) (categories d) = []"
    using assms(2) by (auto simp: update_name_def split: if_splits)
  have "distinct (filter (\<lambda>n. n \<noteq> None) (map c_name (renamed name cid (categories d))))"
  proof (cases "filter (\<lambda>c. Some (c_id c) = cid) (categories d) = []")
    case True
    then have "cid \<notin> Some ` c_id ` set (categories d)"
      by (auto simp: filter_empty_conv)
    then show ?thesis using assms(1) by (simp add: renamed_absent schema_ok_def)
  next
    case False
    with free show ?thesis
      using renamed_distinct [of "categories d" cid name] ids assms(1)
      by (auto simp: schema_ok_def)
  qed
  with assms(1) show ?thesis
    by (simp add: d' schema_ok_def renamed_ids)
qed

section \<open>What a handler leaves behind\<close>

lemma call_api_world [simp]:
  "snd (call_api ok c w) = w\<lparr>outbox := outbox w @ [c]\<rparr>"
  by (simp add: call_api_def)

lemma call_api_error:
  "fst (call_api ok c w) = (if ok (length (outbox w)) then None else Some TelegramAPIError)"
  by (simp add: call_api_def)

lemma and_then_snd:
  "snd (and_then r f) = (if fst r = None then snd (f (snd r)) else snd r)"
  by (cases r) (auto simp: and_then_def split: option.splits)

lemma copy_tasks_world:
  "snd (copy_tasks ok chat rows (n, w)) =
     w\<lparr>outbox := outbox w @
        map (\<lambda>(tid, c, mid). CopyMessage chat c mid (task_inline tid)) rows\<rparr>"
proof (induction rows arbitrary: n w)
  case Nil
  then show ?case by simp
next
  case (Cons row rows)
  obtain tid c mid where row: "row = (tid, c, mid)" by (cases row) auto
  show ?case
    by (simp add: row call_api_def Cons.IH)
qed

lemma db_delete_category [simp]:
  "db (snd (delete_category ok q w)) =
     delete_category_row (cb_id (q_data q)) (delete_tasks_of (cb_id (q_data q)) (db w))"
  by (simp add: delete_category_def Let_def and_then_snd)

lemma db_save_renamed_category:
  "db (snd (save_renamed_category ok m w)) =
     (case update_name (m_text m) (rename_cat_id (fsm w)) (db w) of
        Inl e \<Rightarrow> db w | Inr d \<Rightarrow> d)"
  by (simp add: save_renamed_category_def Let_def state_clear_def split: sum.splits)

section \<open>Deleting a category\<close>

text \<open>
  C4. Handling the category-delete callback for the id \<open>i\<close> deletes the tasks whose
  \<^verbatim>\<open>cat_id\<close> is \<open>i\<close> and then the category \<open>i\<close>: afterwards no task references \<open>i\<close> and no
  category has the id \<open>i\<close>, whatever the transport does with the calls that follow.
\<close>

theorem delete_category_cascade:
  assumes "q_data q = CategoryCB DELETE_CAT i"
  shows "filter (\<lambda>t. t_cat_id t = Some i) (tasks (db (snd (handle ok (CallbackEvent q) w)))) = []
       \<and> filter (\<lambda>c. c_id c = i) (categories (db (snd (handle ok (CallbackEvent q) w)))) = []
       \<and> db (snd (handle ok (CallbackEvent q) w)) = delete_category_row i (delete_tasks_of i (db w))"
  using assms
  by (simp add: delete_category_row_def delete_tasks_of_def filter_empty_conv)

theorem delete_category_cascade_witness:
  "filter (\<lambda>t. t_cat_id t = Some 1)
     (tasks (db (snd (handle (\<lambda>k. False) (CallbackEvent (category_callback DELETE_CAT 1))
        (sample_world clear))))) = []
   \<and> map t_id (tasks (db (snd (handle (\<lambda>k. False) (CallbackEvent (category_callback DELETE_CAT 1))
        (sample_world clear))))) = [2]
   \<and> map c_id (categories (db (snd (handle (\<lambda>k. False) (CallbackEvent (category_callback DELETE_CAT 1))
        (sample_world clear))))) = [2]"
  using delete_category_cascade [of "category_callback DELETE_CAT 1" 1 "\<lambda>k. False" "sample_world clear"]
  by (simp add: category_callback_def sample_world_def sample_db_def
      delete_category_row_def delete_tasks_of_def)

section \<open>Renaming a category\<close>

text \<open>
  C9. The rename handler leaves every task row as it is, keeps the ids of the categories,
  and leaves every category other than the one named by \<^verbatim>\<open>rename_cat_id\<close> unchanged.
\<close>

theorem rename_keeps_tasks:
  "tasks (db (snd (save_renamed_category ok m w))) = tasks (db w)
   \<and> map c_id (categories (db (snd (save_renamed_category ok m w)))) = map c_id (categories (db w))
   \<and> filter (\<lambda>c. Some (c_id c) \<noteq> rename_cat_id (fsm w))
        (categories (db (snd (save_renamed_category ok m w))))
      = filter (\<lambda>c. Some (c_id c) \<noteq> rename_cat_id (fsm w)) (categories (db w))"
proof (cases "update_name (m_text m) (rename_cat_id (fsm w)) (db w)")
  case (Inl e)
  then show ?thesis by (simp add: db_save_renamed_category)
next
  case (Inr d)
  then have d: "d = (db w)\<lparr>categories := renamed (m_text m) (rename_cat_id (fsm w)) (categories (db w))\<rparr>"
    by (rule update_name_Inr)
  with Inr show ?thesis
    by (simp add: db_save_renamed_category d renamed_ids renamed_others)
qed

theorem rename_keeps_tasks_witness:
  "tasks (db (snd (save_renamed_category (\<lambda>k. True) (text_message (ascii ''Job''))
      (sample_world \<lparr>state = Some waiting_rename_category, current_cat_id = None,
         rename_cat_id = Some 1\<rparr>)))) = tasks sample_db
   \<and> map c_name (categories (db (snd (save_renamed_category (\<lambda>k. True) (text_message (ascii ''Job''))
      (sample_world \<lparr>state = Some waiting_rename_category, current_cat_id = None,
         rename_cat_id = Some 1\<rparr>))))) = [Some (ascii ''Job''), Some (ascii ''Home'')]"
  using rename_keeps_tasks [of "\<lambda>k. True" "text_message (ascii ''Job'')"
      "sample_world \<lparr>state = Some waiting_rename_category, current_cat_id = None,
         rename_cat_id = Some 1\<rparr>"]
  by (simp add: db_save_renamed_category update_name_def text_message_def sample_world_def
      sample_db_def)

section \<open>Opening a category\<close>

lemma copied_task_id_copy [simp]:
  "copied_task_id (CopyMessage chat c mid (task_inline tid)) = Some tid"
  by (simp add: task_inline_def)

lemma map_filter_copies:
  "List.map_filter copied_task_id
     (map (\<lambda>(tid, c, mid). CopyMessage chat c mid (task_inline tid)) rows) = map fst rows"
  by (induction rows) (auto simp: List.map_filter_simps)

lemma map_filter_append: "List.map_filter f (xs @ ys) = List.map_filter f xs @ List.map_filter f ys"
  by (simp add: List.map_filter_def)

lemma select_tasks_ids:
  "map fst (select_tasks cid d) = map t_id (filter (\<lambda>t. t_cat_id t = Some cid) (tasks d))"
  by (simp add: select_tasks_def comp_def)

lemma show_category_outbox:
  assumes "m_text m = Some t" and "select_id_by_name (drop 2 t) (db w) = Some cid"
  shows "\<exists>tail. new_calls w (snd (show_category ok m w)) =
           map (\<lambda>(tid, c, mid). CopyMessage (m_chat_id m) c mid (task_inline tid))
             (select_tasks cid (db w)) @ tail
         \<and> List.map_filter copied_task_id tail = []"
  using assms
  by (auto simp: show_category_def Let_def copy_tasks_world and_then_snd new_calls_def
      call_api_error category_settings_btn_def List.map_filter_simps)

lemma filter_is_copy_copies:
  "filter is_copy (map (\<lambda>(tid, c, mid). CopyMessage chat c mid (task_inline tid)) rows)
     = map (\<lambda>(tid, c, mid). CopyMessage chat c mid (task_inline tid)) rows"
  by (induction rows) auto

lemma show_category_copies:
  assumes "m_text m = Some t" and "select_id_by_name (drop 2 t) (db w) = Some cid"
  shows "filter is_copy (new_calls w (snd (show_category ok m w))) =
           map (\<lambda>(tid, c, mid). CopyMessage (m_chat_id m) c mid (task_inline tid))
             (select_tasks cid (db w))"
  using assms
  by (auto simp: show_category_def Let_def copy_tasks_world and_then_snd new_calls_def
      call_api_error filter_is_copy_copies)

lemma show_category_absent:
  assumes "m_text m = Some t" and "select_id_by_name (drop 2 t) (db w) = None"
  shows "show_category ok m w = (None, w)"
  using assms by (simp add: show_category_def)

text \<open>
  C6. Opening a category issues exactly one copy call per stored task of the category (none
  when the name matches no category), whatever the transport answers: the list of copy
  calls does not depend on \<open>ok\<close>, so a call that fails is skipped and the calls after it
  are still made.
\<close>

theorem replay_attempts_every_task:
  assumes "m_text m = Some t"
  shows "filter is_copy (new_calls w (snd (show_category ok m w))) =
           (case select_id_by_name (drop 2 t) (db w) of
              None \<Rightarrow> []
            | Some cid \<Rightarrow>
                map (\<lambda>(tid, c, mid). CopyMessage (m_chat_id m) c mid (task_inline tid))
                  (select_tasks cid (db w)))
       \<and> length (filter is_copy (new_calls w (snd (show_category ok m w)))) =
           (case select_id_by_name (drop 2 t) (db w) of
              None \<Rightarrow> 0
            | Some cid \<Rightarrow> length (filter (\<lambda>t. t_cat_id t = Some cid) (tasks (db w))))"
proof (cases "select_id_by_name (drop 2 t) (db w)")
  case None
  with assms show ?thesis
    by (simp add: show_category_absent new_calls_def)
next
  case (Some cid)
  with assms show ?thesis
    by (simp add: show_category_copies select_tasks_def)
qed

theorem replay_attempts_every_task_witness:
  "filter is_copy (new_calls (sample_world clear)
      (snd (show_category (\<lambda>k. k \<noteq> 0) (text_message (FOLDER @ ascii ''Work'')) (sample_world clear))))
    = [CopyMessage 7 7 40 (task_inline 1), CopyMessage 7 7 42 (task_inline 3)]"
  using replay_attempts_every_task [of "text_message (FOLDER @ ascii ''Work'')" "FOLDER @ ascii ''Work''"
      "sample_world clear" "\<lambda>k. k \<noteq> 0"]
  by (simp add: text_message_def FOLDER_def sample_world_def sample_db_def select_id_by_name_def
      select_tasks_def)

text \<open>
  C7. In a database that satisfies the schema, opening a category that exists issues its
  copy calls in ascending task-id order, one per stored task of the category: the task ids
  of the copy calls are the ids of the category's tasks, and they are strictly increasing.
  The order is that of the table scan, by rowid.
\<close>

theorem replay_in_ascending_task_id_order:
  assumes "schema_ok (db w)" and "m_text m = Some t"
    and "select_id_by_name (drop 2 t) (db w) = Some cid"
  shows "List.map_filter copied_task_id (new_calls w (snd (show_category ok m w)))
           = map t_id (filter (\<lambda>t. t_cat_id t = Some cid) (tasks (db w)))
       \<and> sorted_wrt (<) (List.map_filter copied_task_id (new_calls w (snd (show_category ok m w))))"
proof -
  obtain tail where
    "new_calls w (snd (show_category ok m w)) =
       map (\<lambda>(tid, c, mid). CopyMessage (m_chat_id m) c mid (task_inline tid))
         (select_tasks cid (db w)) @ tail"
    and "List.map_filter copied_task_id tail = []"
    using show_category_outbox [OF assms(2,3)] by blast
  then have "List.map_filter copied_task_id (new_calls w (snd (show_category ok m w)))
           = map fst (select_tasks cid (db w))"
    by (simp only: map_filter_append map_filter_copies append_Nil2)
  then have ids: "List.map_filter copied_task_id (new_calls w (snd (show_category ok m w)))
           = map t_id (filter (\<lambda>t. t_cat_id t = Some cid) (tasks (db w)))"
    by (simp add: select_tasks_ids)
  have "sorted_wrt (<) (map t_id (filter (\<lambda>t. t_cat_id t = Some cid) (tasks (db w))))"
    using assms(1) by (simp add: schema_ok_def sorted_ids_filter)
  with ids show ?thesis by simp
qed

theorem replay_in_ascending_task_id_order_witness:
  "schema_ok sample_db
   \<and> List.map_filter copied_task_id (new_calls (sample_world clear)
      (snd (show_category (\<lambda>k. True) (text_message (FOLDER @ ascii ''Work'')) (sample_world clear))))
    = [1, 3]"
proof -
  have s: "schema_ok (db (sample_world clear))"
    by (simp add: schema_ok_def sample_world_def sample_db_def)
  have t: "m_text (text_message (FOLDER @ ascii ''Work'')) = Some (FOLDER @ ascii ''Work'')"
    by (simp add: text_message_def)
  have f: "select_id_by_name (drop 2 (FOLDER @ ascii ''Work'')) (db (sample_world clear)) = Some 1"
    by (simp add: FOLDER_def sample_world_def sample_db_def select_id_by_name_def)
  show ?thesis
    using replay_in_ascending_task_id_order [OF s t f, of "\<lambda>k. True"] s
    by (simp add: sample_world_def sample_db_def)
qed

section \<open>The reset command\<close>

lemmas handler_defs =
  cmd_start_def add_cat_init_def save_category_def show_category_def category_settings_def
  rename_cat_init_def save_renamed_category_def add_task_init_def save_task_def
  delete_task_def delete_category_def

lemma concat_adjust2: "concat (adjust2 xs) = xs"
  by (induction xs rule: adjust2.induct) auto

lemma menu_buttons_main_menu:
  "menu_buttons (main_menu d) = map (\<lambda>c. FOLDER @ fmt (c_name c)) (categories d) @ [NEW_CATEGORY]"
  by (simp add: main_menu_def select_names_def concat_adjust2 comp_def)

lemma on_message_reset:
  "command_start m \<or> text_is m CANCEL \<Longrightarrow> on_message ok m w = cmd_start ok m w"
  by (simp add: on_message_def)

text \<open>
  C8. Whatever the conversation state and the scratch data, a message that is the start
  command or the cancel button text is handled by \<^verbatim>\<open>cmd_start\<close>: the state and the scratch
  data are cleared, the store is untouched, and the one call made sends a main menu read
  from the store at that moment, with one folder button per category row and the
  new-category button last.
\<close>

theorem reset_from_any_state:
  assumes "command_start m \<or> text_is m CANCEL"
  shows "fsm (snd (handle ok (MessageEvent m) w)) = clear
       \<and> db (snd (handle ok (MessageEvent m) w)) = db w
       \<and> new_calls w (snd (handle ok (MessageEvent m) w))
           = [SendMessage (m_chat_id m) (ascii ''Main Menu:'') (main_menu (db w))]
       \<and> menu_buttons (main_menu (db w))
           = map (\<lambda>c. FOLDER @ fmt (c_name c)) (categories (db w)) @ [NEW_CATEGORY]"
  using assms
  by (simp add: on_message_reset cmd_start_def state_clear_def new_calls_def
      menu_buttons_main_menu)

theorem reset_from_any_state_witness:
  "fsm (snd (handle (\<lambda>k. False) (MessageEvent (text_message CANCEL))
      (sample_world \<lparr>state = Some waiting_content, current_cat_id = Some 1, rename_cat_id = Some 2\<rparr>)))
     = \<lparr>state = None, current_cat_id = None, rename_cat_id = None\<rparr>
   \<and> menu_buttons (main_menu sample_db)
     = [FOLDER @ ascii ''Work'', FOLDER @ ascii ''Home'', NEW_CATEGORY]"
proof -
  have c: "command_start (text_message CANCEL) \<or> text_is (text_message CANCEL) CANCEL"
    by (simp add: text_is_def text_message_def)
  show ?thesis
    using reset_from_any_state [OF c, of "\<lambda>k. False"
        "sample_world \<lparr>state = Some waiting_content, current_cat_id = Some 1, rename_cat_id = Some 2\<rparr>"]
    by (simp add: clear_def sample_world_def sample_db_def)
qed

lemma start_is_command: "command_start (text_message (ascii ''/start''))"
  by (simp add: command_start_def text_message_def)

section \<open>The schema holds in every reachable state\<close>

lemma db_cmd_start [simp]: "db (snd (cmd_start ok m w)) = db w"
  by (simp add: cmd_start_def state_clear_def)

lemma db_add_cat_init [simp]: "db (snd (add_cat_init ok m w)) = db w"
  by (simp add: add_cat_init_def and_then_snd set_state_def)

lemma db_save_category [simp]:
  "db (snd (save_category ok m w)) = insert_or_ignore_category (m_text m) (db w)"
  by (simp add: save_category_def state_clear_def)

lemma db_show_category [simp]: "db (snd (show_category ok m w)) = db w"
  by (simp add: show_category_def Let_def and_then_snd copy_tasks_world
      split: option.splits)

lemma db_category_settings [simp]: "db (snd (category_settings ok q w)) = db w"
  by (simp add: category_settings_def and_then_snd)

lemma db_rename_cat_init [simp]: "db (snd (rename_cat_init ok q w)) = db w"
  by (simp add: rename_cat_init_def and_then_snd set_state_def)

lemma db_add_task_init [simp]: "db (snd (add_task_init ok m w)) = db w"
  by (simp add: add_task_init_def and_then_snd set_state_def)

lemma db_save_task [simp]:
  "db (snd (save_task ok m w)) =
     insert_task (current_cat_id (fsm w)) (m_chat_id m) (m_message_id m)
       (take 20 (py_or (m_text m) (py_or (m_caption m) (ascii ''Media'')))) (db w)"
  by (simp add: save_task_def state_clear_def Let_def)

lemma db_delete_task [simp]:
  "db (snd (delete_task ok q w)) = delete_task_row (cb_id (q_data q)) (db w)"
  by (simp add: delete_task_def and_then_snd)

lemma schema_ok_save_renamed_category:
  "schema_ok (db w) \<Longrightarrow> schema_ok (db (snd (save_renamed_category ok m w)))"
  by (auto simp: db_save_renamed_category schema_ok_update_name split: sum.splits)

lemma schema_ok_on_message:
  "schema_ok (db w) \<Longrightarrow> schema_ok (db (snd (on_message ok m w)))"
  by (simp add: on_message_def schema_ok_insert_category schema_ok_insert_task
      schema_ok_save_renamed_category)

lemma schema_ok_on_callback:
  "schema_ok (db w) \<Longrightarrow> schema_ok (db (snd (on_callback ok q w)))"
  by (simp add: schema_ok_delete_task_row schema_ok_delete_tasks_of
      schema_ok_delete_category_row split: callback_data.splits Action.splits)

lemma schema_ok_handle:
  "schema_ok (db w) \<Longrightarrow> schema_ok (db (snd (handle ok e w)))"
  by (cases e) (simp_all add: schema_ok_on_message schema_ok_on_callback del: on_callback.simps)

lemma schema_ok_run: "schema_ok (db w) \<Longrightarrow> schema_ok (db (run ok es w))"
  by (induction es arbitrary: w) (simp_all add: schema_ok_handle del: handle.simps)

lemma schema_ok_reachable: "schema_ok (db (run ok es initial))"
  by (rule schema_ok_run) (simp add: initial_def schema_ok_def)

section \<open>Creating a category\<close>

lemma name_count_le_one:
  "distinct (filter P (map f xs)) \<Longrightarrow> P v \<Longrightarrow> length (filter (\<lambda>x. f x = v) xs) \<le> 1"
proof (induction xs)
  case Nil
  then show ?case by simp
next
  case (Cons x xs)
  show ?case
  proof (cases "f x = v")
    case True
    with Cons.prems have "v \<notin> set (map f xs)" by auto
    then have "filter (\<lambda>x. f x = v) xs = []" by (auto simp: filter_empty_conv)
    with True show ?thesis by simp
  next
    case False
    with Cons show ?thesis by (auto split: if_splits)
  qed
qed

lemma name_count_ge_one: "v \<in> set (map f xs) \<Longrightarrow> 1 \<le> length (filter (\<lambda>x. f x = v) xs)"
  by (induction xs) auto

lemma insert_category_count:
  assumes "schema_ok d"
  shows "length (filter (\<lambda>c. c_name c = Some n)
           (categories (insert_or_ignore_category (Some n) d))) = 1"
proof (cases "Some n \<in> set (map c_name (categories d))")
  case True
  have "length (filter (\<lambda>c. c_name c = Some n) (categories d)) \<le> 1"
    using assms name_count_le_one [of "\<lambda>n. n \<noteq> None" c_name "categories d" "Some n"]
    by (simp add: schema_ok_def)
  with name_count_ge_one [OF True] True show ?thesis
    by (simp add: insert_or_ignore_category_def)
next
  case False
  then have "filter (\<lambda>c. c_name c = Some n) (categories d) = []"
    by (force simp: filter_empty_conv)
  with False show ?thesis
    by (simp add: insert_or_ignore_category_def)
qed

lemma insert_category_again:
  "insert_or_ignore_category (Some n) (insert_or_ignore_category (Some n) d)
     = insert_or_ignore_category (Some n) d"
  by (simp add: insert_or_ignore_category_def)

text \<open>
  C5. In a database that satisfies the schema, creating a category with the name \<open>n\<close> and
  then creating it again leaves exactly one category named \<open>n\<close>; the second creation does
  not change the store and raises nothing of its own: the handler ends with an exception
  only if its echo call fails.
\<close>

theorem create_twice_yields_one:
  assumes "schema_ok (db w)" and "m_text m = Some n" and "m_text m' = Some n"
  shows "length (filter (\<lambda>c. c_name c = Some n)
           (categories (db (snd (save_category ok' m' (snd (save_category ok m w))))))) = 1
       \<and> db (snd (save_category ok' m' (snd (save_category ok m w))))
           = db (snd (save_category ok m w))
       \<and> fst (save_category ok' m' (snd (save_category ok m w)))
           = (if ok' (length (outbox (snd (save_category ok m w)))) then None
              else Some TelegramAPIError)"
  using assms
  by (simp add: insert_category_again insert_category_count)
    (simp add: save_category_def call_api_def state_clear_def)

lemmas eval_defs =
  handler_defs on_message_def command_start_def text_is_def text_startswith_def
  CANCEL_def NEW_CATEGORY_def ADD_TO_def FOLDER_def call_api_def and_then_def set_state_def
  state_clear_def clear_def initial_def Let_def
  insert_or_ignore_category_def select_names_def select_id_by_name_def select_tasks_def
  update_name_def insert_task_def delete_task_row_def delete_tasks_of_def delete_category_row_def
  main_menu_def cancel_kb_def task_inline_def category_settings_btn_def category_mgmt_menu_def
  text_message_def photo_message_def category_callback_def

theorem create_twice_yields_one_witness:
  "schema_ok (db initial)
   \<and> categories (db (snd (save_category (\<lambda>k. False) (text_message (ascii ''Work''))
        (snd (save_category (\<lambda>k. True) (text_message (ascii ''Work'')) initial)))))
     = [\<lparr>c_id = 1, c_name = Some (ascii ''Work'')\<rparr>]
   \<and> fst (save_category (\<lambda>k. True) (text_message (ascii ''Work''))
        (snd (save_category (\<lambda>k. True) (text_message (ascii ''Work'')) initial))) = None"
proof -
  have s: "schema_ok (db initial)" by (simp add: initial_def schema_ok_def)
  have t: "m_text (text_message (ascii ''Work'')) = Some (ascii ''Work'')"
    by (simp add: text_message_def)
  show ?thesis
    using create_twice_yields_one [OF s t t, of "\<lambda>k. False" "\<lambda>k. True"]
      create_twice_yields_one [OF s t t, of "\<lambda>k. True" "\<lambda>k. True"] s
    by (simp add: insert_or_ignore_category_def initial_def text_message_def)
qed

section \<open>Tasks and the category they reference\<close>

text \<open>
  C1. The claimed invariant, every task references an existing category, fails in a
  reachable state: in a fresh chat the add-to button text puts the chat in
  \<^verbatim>\<open>waiting_content\<close> with no \<^verbatim>\<open>current_cat_id\<close>, and the next message is stored as a
  task whose \<^verbatim>\<open>cat_id\<close> is NULL.
\<close>

theorem null_cat_id_task:
  "tasks (db (run all_ok
      [MessageEvent (text_message (ADD_TO @ ascii ''Work'')),
       MessageEvent (text_message (ascii ''hello''))] initial))
     = [\<lparr>t_id = 1, t_cat_id = None, t_chat_id = 7, t_msg_id = 100,
         t_preview_text = ascii ''hello''\<rparr>]
   \<and> \<not> fk_ok (db (run all_ok
      [MessageEvent (text_message (ADD_TO @ ascii ''Work'')),
       MessageEvent (text_message (ascii ''hello''))] initial))"
  by (simp add: eval_defs fk_ok_def all_ok_def)

text \<open>The same handler stores a task under the id of a category deleted in between: the
  delete handler leaves \<^verbatim>\<open>current_cat_id\<close> in the scratch data.\<close>

lemma stale_cat_id_task:
  "db (run all_ok
      [MessageEvent (text_message NEW_CATEGORY),
       MessageEvent (text_message (ascii ''Work'')),
       MessageEvent (text_message (FOLDER @ ascii ''Work'')),
       CallbackEvent (category_callback DELETE_CAT 1),
       MessageEvent (text_message (ADD_TO @ ascii ''Work'')),
       MessageEvent (text_message (ascii ''hello''))] initial)
     = \<lparr>categories = [],
        tasks = [\<lparr>t_id = 1, t_cat_id = Some 1, t_chat_id = 7, t_msg_id = 100,
                  t_preview_text = ascii ''hello''\<rparr>]\<rparr>"
  by (simp add: eval_defs all_ok_def)

text \<open>The delete handler, for its part, keeps the invariant: it removes the tasks of the
  category before the category.\<close>

lemma fk_ok_delete_category:
  "fk_ok (db w) \<Longrightarrow> fk_ok (db (snd (delete_category ok q w)))"
  by (auto simp: fk_ok_def list_all_iff delete_category_row_def delete_tasks_of_def
      split: option.splits)

section \<open>Renaming to a name that is taken\<close>

lemma fsm_save_renamed_category:
  "fsm (snd (save_renamed_category ok m w)) =
     (case update_name (m_text m) (rename_cat_id (fsm w)) (db w) of
        Inl e \<Rightarrow> fsm w | Inr d \<Rightarrow> clear)"
  by (simp add: save_renamed_category_def Let_def state_clear_def split: sum.splits)

text \<open>
  C2, as claimed, fails: with the categories Work and Home stored, renaming Work to Home
  ends the handler with the integrity error of the UNIQUE constraint, and the store still
  holds one Work and one Home.
\<close>

theorem rename_to_taken_name_is_rejected:
  "map c_name (categories (db (run all_ok
      [MessageEvent (text_message NEW_CATEGORY), MessageEvent (text_message (ascii ''Work'')),
       MessageEvent (text_message NEW_CATEGORY), MessageEvent (text_message (ascii ''Home'')),
       CallbackEvent (category_callback RENAME_CAT 1),
       MessageEvent (text_message (ascii ''Home''))] initial)))
     = [Some (ascii ''Work''), Some (ascii ''Home'')]
   \<and> fst (handle all_ok (MessageEvent (text_message (ascii ''Home'')))
       (run all_ok
         [MessageEvent (text_message NEW_CATEGORY), MessageEvent (text_message (ascii ''Work'')),
          MessageEvent (text_message NEW_CATEGORY), MessageEvent (text_message (ascii ''Home'')),
          CallbackEvent (category_callback RENAME_CAT 1)] initial))
     = Some IntegrityError"
  by (simp add: eval_defs all_ok_def)

text \<open>
  C2, amended. The rename handler makes no uniqueness check of its own and issues the UPDATE
  for the category of \<^verbatim>\<open>rename_cat_id\<close>. In a database that satisfies the schema, for an
  existing category: if no other category holds the new name the category gets the name and
  the state is cleared; if another category holds it the UPDATE is rejected, the handler
  ends with the integrity error and the world is unchanged. Either way the names of the
  stored categories stay pairwise different.
\<close>

theorem rename_respects_unique_names:
  assumes "schema_ok (db w)" and "m_text m = Some n" and "rename_cat_id (fsm w) = Some cid"
    and "cid \<in> set (map c_id (categories (db w)))"
  shows "(if filter (\<lambda>c. c_id c \<noteq> cid \<and> c_name c = Some n) (categories (db w)) \<noteq> []
          then save_renamed_category ok m w = (Some IntegrityError, w)
          else categories (db (snd (save_renamed_category ok m w)))
                 = map (\<lambda>c. if c_id c = cid then c\<lparr>c_name := Some n\<rparr> else c) (categories (db w))
               \<and> fsm (snd (save_renamed_category ok m w)) = clear)
       \<and> distinct (filter (\<lambda>x. x \<noteq> None)
            (map c_name (categories (db (snd (save_renamed_category ok m w))))))"
proof -
  have present: "filter (\<lambda>c. Some (c_id c) = Some cid) (categories (db w)) \<noteq> []"
    using assms(4) by (auto simp: filter_empty_conv)
  have "schema_ok (db (snd (save_renamed_category ok m w)))"
    using assms(1) by (rule schema_ok_save_renamed_category)
  then have uniq: "distinct (filter (\<lambda>x. x \<noteq> None)
            (map c_name (categories (db (snd (save_renamed_category ok m w))))))"
    by (simp add: schema_ok_def)
  show ?thesis
  proof (cases "filter (\<lambda>c. c_id c \<noteq> cid \<and> c_name c = Some n) (categories (db w)) = []")
    case True
    then have "update_name (Some n) (Some cid) (db w) =
        Inr ((db w)\<lparr>categories :=
          map (\<lambda>c. if c_id c = cid then c\<lparr>c_name := Some n\<rparr> else c) (categories (db w))\<rparr>)"
      by (simp add: update_name_def)
    with True uniq assms(2,3) show ?thesis
      by (simp add: db_save_renamed_category fsm_save_renamed_category)
  next
    case False
    with present have "update_name (Some n) (Some cid) (db w) = Inl IntegrityError"
      by (simp add: update_name_def)
    with False uniq assms(2,3) show ?thesis
      by (simp add: save_renamed_category_def)
  qed
qed

theorem rename_respects_unique_names_witness:
  "schema_ok sample_db
   \<and> save_renamed_category (\<lambda>k. True) (text_message (ascii ''Home'')) (sample_world renaming)
       = (Some IntegrityError, sample_world renaming)
   \<and> map c_name (categories (db (snd
        (save_renamed_category (\<lambda>k. True) (text_message (ascii ''Job'')) (sample_world renaming)))))
       = [Some (ascii ''Job''), Some (ascii ''Home'')]"
proof -
  have s: "schema_ok (db (sample_world renaming))"
    by (simp add: schema_ok_def sample_world_def sample_db_def)
  have r: "rename_cat_id (fsm (sample_world renaming)) = Some 1"
    by (simp add: sample_world_def renaming_def)
  have c: "1 \<in> set (map c_id (categories (db (sample_world renaming))))"
    by (simp add: sample_world_def sample_db_def)
  have h: "m_text (text_message (ascii ''Home'')) = Some (ascii ''Home'')"
    and j: "m_text (text_message (ascii ''Job'')) = Some (ascii ''Job'')"
    by (simp_all add: text_message_def)
  show ?thesis
    using rename_respects_unique_names [OF s h r c, of "\<lambda>k. True"]
      rename_respects_unique_names [OF s j r c, of "\<lambda>k. True"] s
    by (simp add: sample_world_def sample_db_def)
qed

section \<open>Conversation state and failed platform calls\<close>

lemma fsm_call_api [simp]: "fsm (snd (call_api ok c w)) = fsm w"
  by simp

lemma fsm_copy_tasks [simp]: "fsm (snd (copy_tasks ok chat rows (n, w))) = fsm w"
  by (simp add: copy_tasks_world)

text \<open>
  C3, as claimed, fails: when the prompt sent for the new-category button fails, the chat
  does not enter \<^verbatim>\<open>waiting_new_category_name\<close>.
\<close>

theorem failed_prompt_leaves_state:
  "state (fsm (snd (handle all_fail (MessageEvent (text_message NEW_CATEGORY)) initial)))
     \<noteq> Some waiting_new_category_name"
  by (simp add: eval_defs all_fail_def)

text \<open>
  C3, amended. The handlers that end a flow (\<^verbatim>\<open>cmd_start\<close>, \<^verbatim>\<open>save_category\<close>,
  \<^verbatim>\<open>save_task\<close>, and \<^verbatim>\<open>save_renamed_category\<close> once its UPDATE is accepted) clear the
  conversation state before their echo call, so the state is cleared whether or not the call
  succeeds; \<^verbatim>\<open>show_category\<close> and \<^verbatim>\<open>rename_cat_init\<close> record their scratch value before
  any call. The three handlers that enter a waiting state (\<^verbatim>\<open>add_cat_init\<close>,
  \<^verbatim>\<open>add_task_init\<close>, \<^verbatim>\<open>rename_cat_init\<close>) set it after the prompt call: it is set exactly
  when that call succeeds, and otherwise the state stays as it was. The callback handlers
  for settings and deletion never touch the conversation state.
\<close>

theorem state_transitions_and_failed_calls:
  "fsm (snd (cmd_start ok m w)) = clear
   \<and> fsm (snd (save_category ok m w)) = clear
   \<and> fsm (snd (save_task ok m w)) = clear
   \<and> fsm (snd (save_renamed_category ok m w))
       = (case update_name (m_text m) (rename_cat_id (fsm w)) (db w) of
            Inl e \<Rightarrow> fsm w | Inr d \<Rightarrow> clear)
   \<and> fsm (snd (show_category ok m w))
       = (case m_text m of
            None \<Rightarrow> fsm w
          | Some t \<Rightarrow>
              (case select_id_by_name (drop 2 t) (db w) of
                 None \<Rightarrow> fsm w
               | Some cid \<Rightarrow> (fsm w)\<lparr>current_cat_id := Some cid\<rparr>))
   \<and> fsm (snd (add_cat_init ok m w))
       = (if ok (length (outbox w)) then (fsm w)\<lparr>state := Some waiting_new_category_name\<rparr>
          else fsm w)
   \<and> fsm (snd (add_task_init ok m w))
       = (if ok (length (outbox w)) then (fsm w)\<lparr>state := Some waiting_content\<rparr>
          else fsm w)
   \<and> fsm (snd (rename_cat_init ok q w))
       = (if ok (length (outbox w))
          then (fsm w)\<lparr>rename_cat_id := Some (cb_id (q_data q)),
                 state := Some waiting_rename_category\<rparr>
          else (fsm w)\<lparr>rename_cat_id := Some (cb_id (q_data q))\<rparr>)
   \<and> fsm (snd (category_settings ok q w)) = fsm w
   \<and> fsm (snd (delete_task ok q w)) = fsm w
   \<and> fsm (snd (delete_category ok q w)) = fsm w"
proof -
  have 1: "fsm (snd (cmd_start ok m w)) = clear"
    by (simp add: cmd_start_def state_clear_def)
  have 2: "fsm (snd (save_category ok m w)) = clear"
    by (simp add: save_category_def state_clear_def)
  have 3: "fsm (snd (save_task ok m w)) = clear"
    by (simp add: save_task_def state_clear_def Let_def)
  have 4: "fsm (snd (show_category ok m w))
       = (case m_text m of
            None \<Rightarrow> fsm w
          | Some t \<Rightarrow>
              (case select_id_by_name (drop 2 t) (db w) of
                 None \<Rightarrow> fsm w
               | Some cid \<Rightarrow> (fsm w)\<lparr>current_cat_id := Some cid\<rparr>))"
    by (simp add: show_category_def Let_def and_then_snd copy_tasks_world split: option.splits)
  have 5: "fsm (snd (add_cat_init ok m w))
       = (if ok (length (outbox w)) then (fsm w)\<lparr>state := Some waiting_new_category_name\<rparr>
          else fsm w)"
    by (simp add: add_cat_init_def and_then_snd call_api_error set_state_def)
  have 6: "fsm (snd (add_task_init ok m w))
       = (if ok (length (outbox w)) then (fsm w)\<lparr>state := Some waiting_content\<rparr>
          else fsm w)"
    by (simp add: add_task_init_def and_then_snd call_api_error set_state_def)
  have 7: "fsm (snd (rename_cat_init ok q w))
       = (if ok (length (outbox w))
          then (fsm w)\<lparr>rename_cat_id := Some (cb_id (q_data q)),
                 state := Some waiting_rename_category\<rparr>
          else (fsm w)\<lparr>rename_cat_id := Some (cb_id (q_data q))\<rparr>)"
    by (simp add: rename_cat_init_def and_then_snd call_api_error set_state_def)
  have 8: "fsm (snd (category_settings ok q w)) = fsm w"
    by (simp add: category_settings_def and_then_snd)
  have 9: "fsm (snd (delete_task ok q w)) = fsm w"
    by (simp add: delete_task_def and_then_snd)
  have 10: "fsm (snd (delete_category ok q w)) = fsm w"
    by (simp add: delete_category_def and_then_snd)
  from 1 2 3 4 5 6 7 8 9 10 show ?thesis
    by (simp only: fsm_save_renamed_category simp_thms)
qed

theorem state_transitions_and_failed_calls_witness:
  "fsm (snd (cmd_start all_fail (text_message CANCEL) (sample_world renaming))) = clear
   \<and> state (fsm (snd (add_cat_init all_fail (text_message NEW_CATEGORY) (sample_world clear)))) = None
   \<and> state (fsm (snd (add_cat_init all_ok (text_message NEW_CATEGORY) (sample_world clear))))
       = Some waiting_new_category_name
   \<and> fsm (snd (rename_cat_init all_fail (category_callback RENAME_CAT 2) (sample_world clear)))
       = \<lparr>state = None, current_cat_id = None, rename_cat_id = Some 2\<rparr>"
  using state_transitions_and_failed_calls [of all_fail "text_message CANCEL" "sample_world renaming"
      "category_callback RENAME_CAT 2"]
    state_transitions_and_failed_calls [of all_fail "text_message NEW_CATEGORY" "sample_world clear"
      "category_callback RENAME_CAT 2"]
    state_transitions_and_failed_calls [of all_ok "text_message NEW_CATEGORY" "sample_world clear"
      "category_callback RENAME_CAT 2"]
  by (simp add: all_fail_def all_ok_def sample_world_def clear_def category_callback_def)

section \<open>The label of a category and its way back\<close>

lemma select_id_by_name_unique:
  assumes "schema_ok d" and "c \<in> set (categories d)" and "c_name c = Some n"
  shows "select_id_by_name n d = Some (c_id c)"
proof -
  have "filter (\<lambda>x. c_name x = Some n) (categories d) = [c]"
    using assms
  proof -
    have le: "length (filter (\<lambda>x. c_name x = Some n) (categories d)) \<le> 1"
      using assms(1) name_count_le_one [of "\<lambda>n. n \<noteq> None" c_name "categories d" "Some n"]
      by (simp add: schema_ok_def)
    have "c \<in> set (filter (\<lambda>x. c_name x = Some n) (categories d))"
      using assms(2,3) by simp
    with le show ?thesis
      by (cases "filter (\<lambda>x. c_name x = Some n) (categories d)") auto
  qed
  then show ?thesis by (simp add: select_id_by_name_def)
qed

lemma menu_label_round_trip:
  assumes "schema_ok d" and "c \<in> set (categories d)" and "c_name c = Some n"
  shows "FOLDER @ fmt (c_name c) \<in> set (menu_buttons (main_menu d))
       \<and> startswith (FOLDER @ fmt (c_name c)) FOLDER
       \<and> select_id_by_name (drop 2 (FOLDER @ fmt (c_name c))) d = Some (c_id c)"
proof -
  have "FOLDER @ fmt (c_name c) \<in> (\<lambda>c. FOLDER @ fmt (c_name c)) ` set (categories d)"
    using assms(2) by (rule imageI)
  then have "FOLDER @ fmt (c_name c) \<in> set (menu_buttons (main_menu d))"
    by (simp add: menu_buttons_main_menu)
  moreover have "drop 2 (FOLDER @ fmt (c_name c)) = n"
    using assms(3) by (simp add: FOLDER_def)
  ultimately show ?thesis
    using select_id_by_name_unique [OF assms] by (simp add: FOLDER_def)
qed

lemma fsm_show_category:
  "fsm (snd (show_category ok m w))
       = (case m_text m of
            None \<Rightarrow> fsm w
          | Some t \<Rightarrow>
              (case select_id_by_name (drop 2 t) (db w) of
                 None \<Rightarrow> fsm w
               | Some cid \<Rightarrow> (fsm w)\<lparr>current_cat_id := Some cid\<rparr>))"
  by (simp add: show_category_def Let_def and_then_snd copy_tasks_world split: option.splits)

lemma on_message_opens:
  assumes "m_text m = Some (FOLDER @ s)" and "state (fsm w) \<noteq> Some waiting_new_category_name"
  shows "on_message ok m w = show_category ok m w"
  using assms
  by (simp add: on_message_def command_start_def text_is_def text_startswith_def
      FOLDER_def CANCEL_def NEW_CATEGORY_def)

lemma on_message_saves_category:
  assumes "state (fsm w) = Some waiting_new_category_name"
    and "\<not> command_start m" and "\<not> text_is m CANCEL" and "\<not> text_is m NEW_CATEGORY"
  shows "on_message ok m w = save_category ok m w"
  using assms by (simp add: on_message_def)

text \<open>
  For a category whose name is a text, the label leads back to the category: at the
  open-category handler, and through the dispatcher in every state but
  \<^verbatim>\<open>waiting_new_category_name\<close>, whose handler is registered before the open-category
  handler and takes the label as the name of a new category.
\<close>

lemma menu_label_opens_its_category:
  assumes "schema_ok (db w)" and "c \<in> set (categories (db w))" and "c_name c = Some n"
    and "m_text m = Some (FOLDER @ fmt (c_name c))"
  shows "FOLDER @ fmt (c_name c) \<in> set (menu_buttons (main_menu (db w)))
       \<and> drop 2 (FOLDER @ fmt (c_name c)) = n
       \<and> select_id_by_name (drop 2 (FOLDER @ fmt (c_name c))) (db w) = Some (c_id c)
       \<and> current_cat_id (fsm (snd (show_category ok m w))) = Some (c_id c)"
proof -
  have rt: "FOLDER @ fmt (c_name c) \<in> set (menu_buttons (main_menu (db w)))
       \<and> startswith (FOLDER @ fmt (c_name c)) FOLDER
       \<and> select_id_by_name (drop 2 (FOLDER @ fmt (c_name c))) (db w) = Some (c_id c)"
    using assms(1,2,3) by (rule menu_label_round_trip)
  moreover have "drop 2 (FOLDER @ fmt (c_name c)) = n"
    using assms(3) by (simp add: FOLDER_def)
  moreover have "current_cat_id (fsm (snd (show_category ok m w))) = Some (c_id c)"
    using rt assms(4) by (simp add: fsm_show_category)
  ultimately show ?thesis by simp
qed

lemma menu_label_dispatched:
  assumes "schema_ok (db w)" and "c \<in> set (categories (db w))" and "c_name c = Some n"
    and "m_text m = Some (FOLDER @ fmt (c_name c))"
    and "state (fsm w) \<noteq> Some waiting_new_category_name"
  shows "handle ok (MessageEvent m) w = show_category ok m w
       \<and> current_cat_id (fsm (snd (handle ok (MessageEvent m) w))) = Some (c_id c)"
proof -
  have "handle ok (MessageEvent m) w = show_category ok m w"
    using assms(4,5) by (simp add: on_message_opens)
  with menu_label_opens_its_category [OF assms(1,2,3,4), of ok] show ?thesis by simp
qed

lemma menu_label_opens_sample:
  "current_cat_id (fsm (snd (handle all_fail (MessageEvent (text_message (FOLDER @ ascii ''Home'')))
        (sample_world renaming)))) = Some 2"
proof -
  have s: "schema_ok (db (sample_world renaming))"
    by (simp add: schema_ok_def sample_world_def sample_db_def)
  have c: "\<lparr>c_id = 2, c_name = Some (ascii ''Home'')\<rparr> \<in> set (categories (db (sample_world renaming)))"
    by (simp add: sample_world_def sample_db_def)
  have n: "c_name \<lparr>c_id = 2, c_name = Some (ascii ''Home'')\<rparr> = Some (ascii ''Home'')"
    by simp
  have t: "m_text (text_message (FOLDER @ ascii ''Home''))
      = Some (FOLDER @ fmt (c_name \<lparr>c_id = 2, c_name = Some (ascii ''Home'')\<rparr>))"
    by (simp add: text_message_def)
  have i: "state (fsm (sample_world renaming)) \<noteq> Some waiting_new_category_name"
    by (simp add: sample_world_def renaming_def)
  have "current_cat_id (fsm (snd (handle all_fail
      (MessageEvent (text_message (FOLDER @ ascii ''Home''))) (sample_world renaming))))
    = Some (c_id \<lparr>c_id = 2, c_name = Some (ascii ''Home'')\<rparr>)"
    using menu_label_dispatched [OF s c n t i, of all_fail] by (rule conjunct2)
  then show ?thesis by simp
qed

lemma menu_label_while_naming:
  "map c_name (categories (db (snd (handle all_ok (MessageEvent (text_message (FOLDER @ ascii ''Home'')))
       (sample_world \<lparr>state = Some waiting_new_category_name, current_cat_id = None,
          rename_cat_id = None\<rparr>)))))
     = [Some (ascii ''Work''), Some (ascii ''Home''), Some (FOLDER @ ascii ''Home'')]
   \<and> current_cat_id (fsm (snd (handle all_ok (MessageEvent (text_message (FOLDER @ ascii ''Home'')))
       (sample_world \<lparr>state = Some waiting_new_category_name, current_cat_id = None,
          rename_cat_id = None\<rparr>)))) = None"
  by (simp add: eval_defs all_ok_def sample_world_def sample_db_def)

text \<open>
  C10. The round trip from a stored category to its button and back fails in a reachable
  state: a message without text received in \<^verbatim>\<open>waiting_new_category_name\<close> is stored as a
  category whose name is NULL; the main menu labels it with the text \<^verbatim>\<open>None\<close> after the
  folder glyph; sent back in the idle state, that label reaches the open-category handler,
  whose lookup of \<^verbatim>\<open>None\<close> finds no category, and the event is dropped with the world
  unchanged.
\<close>

theorem null_name_has_no_way_back:
  "categories (db (run all_ok
      [MessageEvent (text_message NEW_CATEGORY), MessageEvent photo_message] initial))
     = [\<lparr>c_id = 1, c_name = None\<rparr>]
   \<and> state (fsm (run all_ok
      [MessageEvent (text_message NEW_CATEGORY), MessageEvent photo_message] initial)) = None
   \<and> menu_buttons (main_menu (db (run all_ok
      [MessageEvent (text_message NEW_CATEGORY), MessageEvent photo_message] initial)))
     = [FOLDER @ ascii ''None'', NEW_CATEGORY]
   \<and> select_id_by_name (drop 2 (FOLDER @ ascii ''None''))
       (db (run all_ok
          [MessageEvent (text_message NEW_CATEGORY), MessageEvent photo_message] initial))
     = None
   \<and> handle all_ok (MessageEvent (text_message (FOLDER @ ascii ''None'')))
       (run all_ok
          [MessageEvent (text_message NEW_CATEGORY), MessageEvent photo_message] initial)
     = (None, run all_ok
          [MessageEvent (text_message NEW_CATEGORY), MessageEvent photo_message] initial)"
  by (simp add: eval_defs all_ok_def)

end
